theory Spec2Isabelle
  imports Main "HOL-Library.Word"
begin

section \<open>The platform the loader runs on\<close>

text \<open>
  \<^verbatim>\<open>main\<close> of \<^verbatim>\<open>file.c\<close> is straight-line code around four external calls
  (\<^verbatim>\<open>dlopen\<close>, \<^verbatim>\<open>dlsym\<close>, the call through the resolved pointer, \<^verbatim>\<open>dlclose\<close>) and two
  output calls (\<^verbatim>\<open>perror\<close>, \<^verbatim>\<open>printf\<close>). The external calls are parameters of the model:
  each takes the state of the outside world (loaded libraries, \<^verbatim>\<open>errno\<close>, whatever the
  plugin keeps) and returns its C result with the new world. Pointers are 64-bit words
  with \<^verbatim>\<open>NULL\<close> as 0, \<^verbatim>\<open>int\<close> is a 32-bit word and \<^verbatim>\<open>char\<close> an 8-bit word.

  The model covers the runs in which every external call returns, and in which the
  resolved symbol really has the type \<^verbatim>\<open>char (*)(void*)\<close>.
\<close>

type_synonym ptr = "64 word"
type_synonym c_int = "32 word"
type_synonym c_char = "8 word"

abbreviation NULL :: ptr where
  "NULL \<equiv> 0"

record 'w platform =
  RTLD_LAZY :: c_int
  dlopen :: "string \<Rightarrow> c_int \<Rightarrow> 'w \<Rightarrow> ptr \<times> 'w"
  dlsym :: "ptr \<Rightarrow> string \<Rightarrow> 'w \<Rightarrow> ptr \<times> 'w"
  call_ptr :: "ptr \<Rightarrow> ptr \<Rightarrow> 'w \<Rightarrow> c_char \<times> 'w"
  dlclose :: "ptr \<Rightarrow> 'w \<Rightarrow> c_int \<times> 'w"
  strerror_errno :: "'w \<Rightarrow> string"

text \<open>
  What the process has done so far: the dynamic-loading calls it made, each with its
  arguments and the value it got back, oldest first, and the text it wrote to the two
  standard streams.
\<close>

datatype dl_call =
    Dlopen string c_int ptr
  | Dlsym ptr string ptr
  | Entry ptr ptr c_char
  | Dlclose ptr c_int

record 'w proc =
  world :: 'w
  calls :: "dl_call list"
  stderr :: string
  stdout :: string

definition init :: "'w \<Rightarrow> 'w proc" where
  "init w = \<lparr>world = w, calls = [], stderr = [], stdout = []\<rparr>"

definition newline :: char where
  "newline = CHR 0x0A"

definition call_dlopen :: "'w platform \<Rightarrow> string \<Rightarrow> c_int \<Rightarrow> 'w proc \<Rightarrow> ptr \<times> 'w proc" where
  "call_dlopen pf file mode s =
     (case dlopen pf file mode (world s) of
        (r, w') \<Rightarrow> (r, s\<lparr>world := w', calls := calls s @ [Dlopen file mode r]\<rparr>))"

definition call_dlsym :: "'w platform \<Rightarrow> ptr \<Rightarrow> string \<Rightarrow> 'w proc \<Rightarrow> ptr \<times> 'w proc" where
  "call_dlsym pf handle name s =
     (case dlsym pf handle name (world s) of
        (r, w') \<Rightarrow> (r, s\<lparr>world := w', calls := calls s @ [Dlsym handle name r]\<rparr>))"

definition call_entry :: "'w platform \<Rightarrow> ptr \<Rightarrow> ptr \<Rightarrow> 'w proc \<Rightarrow> c_char \<times> 'w proc" where
  "call_entry pf f arg s =
     (case call_ptr pf f arg (world s) of
        (r, w') \<Rightarrow> (r, s\<lparr>world := w', calls := calls s @ [Entry f arg r]\<rparr>))"

definition call_dlclose :: "'w platform \<Rightarrow> ptr \<Rightarrow> 'w proc \<Rightarrow> c_int \<times> 'w proc" where
  "call_dlclose pf handle s =
     (case dlclose pf handle (world s) of
        (r, w') \<Rightarrow> (r, s\<lparr>world := w', calls := calls s @ [Dlclose handle r]\<rparr>))"

text \<open>
  \<^verbatim>\<open>perror(s)\<close> writes \<^verbatim>\<open>s\<close>, a colon and a blank (when \<^verbatim>\<open>s\<close> is not empty), the
  message for the current \<^verbatim>\<open>errno\<close> and a newline to standard error. \<^verbatim>\<open>printf\<close> is only
  called with a format that has no conversion, so it writes the format itself to
  standard output.
\<close>

definition perror_line :: "string \<Rightarrow> string \<Rightarrow> string" where
  "perror_line s msg = (if s = [] then msg @ [newline] else s @ '': '' @ msg @ [newline])"

definition perror :: "'w platform \<Rightarrow> string \<Rightarrow> 'w proc \<Rightarrow> 'w proc" where
  "perror pf s st = st\<lparr>stderr := stderr st @ perror_line s (strerror_errno pf (world st))\<rparr>"

definition printf :: "string \<Rightarrow> 'w proc \<Rightarrow> 'w proc" where
  "printf fmt st = st\<lparr>stdout := stdout st @ fmt\<rparr>"

section \<open>The loader\<close>

definition path :: string where
  "path = ''/home/mikedorf/dev/vst3sdk/build/VST3/Debug/adelay.vst3/Contents/x86_64-linux/adelay.so''"

text \<open>\<^verbatim>\<open>main\<close>, branch for branch; the result is the value \<^verbatim>\<open>main\<close> returns, the exit status.\<close>

definition main :: "'w platform \<Rightarrow> 'w proc \<Rightarrow> c_int \<times> 'w proc" where
  "main pf s0 =
     (case call_dlopen pf path (RTLD_LAZY pf) s0 of (lib, s1) \<Rightarrow>
        if lib = NULL then
          (1, perror pf ''dlopen'' s1)
        else
          (case call_dlsym pf lib ''ModuleEntry'' s1 of (entryFunc, s2) \<Rightarrow>
             if entryFunc = NULL then
               (case call_dlclose pf lib (perror pf ''dlsym'' s2) of (_, s3) \<Rightarrow>
                  (1, s3))
             else
               (case call_entry pf entryFunc lib s2 of (r, s3) \<Rightarrow>
                  if r = 0 then
                    (1, printf (''failed to init'' @ [newline]) s3)
                  else
                    (case call_dlclose pf lib s3 of (rc, s4) \<Rightarrow>
                       if rc \<noteq> 0 then
                         (1, perror pf ''dlclose'' s4)
                       else
                         (0, s4)))))"

definition exit_status :: "'w platform \<Rightarrow> 'w \<Rightarrow> c_int" where
  "exit_status pf w = fst (main pf (init w))"

definition final :: "'w platform \<Rightarrow> 'w \<Rightarrow> 'w proc" where
  "final pf w = snd (main pf (init w))"

section \<open>What the platform answers along a run\<close>

text \<open>
  The answers to the calls that \<^verbatim>\<open>main\<close> makes from the world \<open>w\<close>, each in the world
  its predecessor left: the \<^verbatim>\<open>dlopen\<close> of the fixed path, the \<^verbatim>\<open>dlsym\<close> of
  \<^verbatim>\<open>"ModuleEntry"\<close> in its handle, the call of the resolved function on the handle, and
  the \<^verbatim>\<open>dlclose\<close> after that call. \<open>released\<close> is the \<^verbatim>\<open>dlclose\<close> made right after the
  \<^verbatim>\<open>dlsym\<close> instead, as on the path where the symbol is not found.
\<close>

definition loaded :: "'w platform \<Rightarrow> 'w \<Rightarrow> ptr \<times> 'w" where
  "loaded pf w = dlopen pf path (RTLD_LAZY pf) w"

definition resolved :: "'w platform \<Rightarrow> 'w \<Rightarrow> ptr \<times> 'w" where
  "resolved pf w = dlsym pf (fst (loaded pf w)) ''ModuleEntry'' (snd (loaded pf w))"

definition invoked :: "'w platform \<Rightarrow> 'w \<Rightarrow> c_char \<times> 'w" where
  "invoked pf w = call_ptr pf (fst (resolved pf w)) (fst (loaded pf w)) (snd (resolved pf w))"

definition unloaded :: "'w platform \<Rightarrow> 'w \<Rightarrow> c_int \<times> 'w" where
  "unloaded pf w = dlclose pf (fst (loaded pf w)) (snd (invoked pf w))"

definition released :: "'w platform \<Rightarrow> 'w \<Rightarrow> c_int \<times> 'w" where
  "released pf w = dlclose pf (fst (loaded pf w)) (snd (resolved pf w))"

definition load_ok :: "'w platform \<Rightarrow> 'w \<Rightarrow> bool" where
  "load_ok pf w = (fst (loaded pf w) \<noteq> NULL)"

definition resolve_ok :: "'w platform \<Rightarrow> 'w \<Rightarrow> bool" where
  "resolve_ok pf w = (fst (resolved pf w) \<noteq> NULL)"

definition invoke_ok :: "'w platform \<Rightarrow> 'w \<Rightarrow> bool" where
  "invoke_ok pf w = (fst (invoked pf w) \<noteq> 0)"

definition unload_ok :: "'w platform \<Rightarrow> 'w \<Rightarrow> bool" where
  "unload_ok pf w = (fst (unloaded pf w) = 0)"

text \<open>
  A platform for examples. Its world is the text of the pending error message; the four
  calls answer \<open>lib\<close>, \<open>fn\<close>, \<open>ret\<close> and \<open>rc\<close>, and a call that fails leaves its message.
\<close>

definition stub :: "ptr \<Rightarrow> ptr \<Rightarrow> c_char \<Rightarrow> c_int \<Rightarrow> string platform" where
  "stub lib fn ret rc =
     \<lparr>RTLD_LAZY = 1,
      dlopen = (\<lambda>file mode w. (lib, if lib = 0 then ''No such file or directory'' else w)),
      dlsym = (\<lambda>handle name w. (fn, w)),
      call_ptr = (\<lambda>f arg w. (ret, w)),
      dlclose = (\<lambda>handle w. (rc, if rc = 0 then w else ''Invalid argument'')),
      strerror_errno = (\<lambda>w. w)\<rparr>"

section \<open>The state machine of the specification\<close>

text \<open>
  The four steps, and whether a recorded call reported failure, as \<^verbatim>\<open>main\<close> tests it:
  a null handle, a null symbol, a zero result of the entry function, a non-zero result
  of \<^verbatim>\<open>dlclose\<close>.
\<close>

datatype step_kind = Load | Resolve | Invoke | Unload

fun kind_of :: "dl_call \<Rightarrow> step_kind" where
  "kind_of (Dlopen file mode r) = Load"
| "kind_of (Dlsym handle name r) = Resolve"
| "kind_of (Entry f arg r) = Invoke"
| "kind_of (Dlclose handle r) = Unload"

fun failed :: "dl_call \<Rightarrow> bool" where
  "failed (Dlopen file mode r) = (r = NULL)"
| "failed (Dlsym handle name r) = (r = NULL)"
| "failed (Entry f arg r) = (r = 0)"
| "failed (Dlclose handle r) = (r \<noteq> 0)"

text \<open>
  The specification's machine, written from its words: the states
  \<^verbatim>\<open>Start, Loaded, Resolved, Invoked, Unloaded, Success\<close> in a line, one step per edge,
  and from each state that takes a step an error edge to \<^verbatim>\<open>Failed(kind)\<close> for the step
  that failed. No edge repeats a step. A failed state takes no further step, but for
  the release of the handle after a failed resolve. \<open>spec_run\<close> reads a list of calls
  from a state; the edge from \<^verbatim>\<open>Unloaded\<close> to \<^verbatim>\<open>Success\<close> needs no call and is taken at
  the end. \<open>spec_status\<close> is the exit status of a terminal state.
\<close>

datatype phase = Start | Loaded | Resolved | Invoked | Unloaded | Success | Failed step_kind

fun spec_next :: "phase \<Rightarrow> dl_call \<Rightarrow> phase option" where
  "spec_next Start (Dlopen file mode r) = Some (if r = NULL then Failed Load else Loaded)"
| "spec_next Loaded (Dlsym handle name r) = Some (if r = NULL then Failed Resolve else Resolved)"
| "spec_next Resolved (Entry f arg r) = Some (if r = 0 then Failed Invoke else Invoked)"
| "spec_next Invoked (Dlclose handle r) = Some (if r \<noteq> 0 then Failed Unload else Unloaded)"
| "spec_next (Failed Resolve) (Dlclose handle r) = Some (Failed Resolve)"
| "spec_next _ _ = None"

fun spec_run :: "phase \<Rightarrow> dl_call list \<Rightarrow> phase option" where
  "spec_run ph [] = Some (if ph = Unloaded then Success else ph)"
| "spec_run ph (c # cs) = (case spec_next ph c of None \<Rightarrow> None | Some ph' \<Rightarrow> spec_run ph' cs)"

fun spec_status :: "phase \<Rightarrow> c_int option" where
  "spec_status Success = Some 0"
| "spec_status (Failed k) = Some 1"
| "spec_status _ = None"

text \<open>A line of text: it ends in its only newline.\<close>

definition is_line :: "string \<Rightarrow> bool" where
  "is_line s = (s \<noteq> [] \<and> last s = newline \<and> newline \<notin> set (butlast s))"

text \<open>
  Two platforms answer alike, up to a relation \<open>R\<close> between their worlds: they have the
  same \<^verbatim>\<open>RTLD_LAZY\<close>, and from related worlds each call returns the same value on both
  and leaves related worlds.
\<close>

definition same_answers :: "('a \<Rightarrow> 'b \<Rightarrow> bool) \<Rightarrow> 'a platform \<Rightarrow> 'b platform \<Rightarrow> bool" where
  "same_answers R p q =
     (RTLD_LAZY p = RTLD_LAZY q \<and>
      (\<forall>file mode a b. R a b \<longrightarrow>
         fst (dlopen p file mode a) = fst (dlopen q file mode b) \<and>
         R (snd (dlopen p file mode a)) (snd (dlopen q file mode b))) \<and>
      (\<forall>handle name a b. R a b \<longrightarrow>
         fst (dlsym p handle name a) = fst (dlsym q handle name b) \<and>
         R (snd (dlsym p handle name a)) (snd (dlsym q handle name b))) \<and>
      (\<forall>f arg a b. R a b \<longrightarrow>
         fst (call_ptr p f arg a) = fst (call_ptr q f arg b) \<and>
         R (snd (call_ptr p f arg a)) (snd (call_ptr q f arg b))) \<and>
      (\<forall>handle a b. R a b \<longrightarrow>
         fst (dlclose p handle a) = fst (dlclose q handle b) \<and>
         R (snd (dlclose p handle a)) (snd (dlclose q handle b))))"

section \<open>The five paths through the loader\<close>

lemmas run_defs = main_def init_def call_dlopen_def call_dlsym_def call_entry_def
  call_dlclose_def perror_def printf_def load_ok_def resolve_ok_def invoke_ok_def
  unload_ok_def loaded_def resolved_def invoked_def unloaded_def released_def split_def

lemma main_load_failed:
  assumes "\<not> load_ok pf w"
  shows "main pf (init w) =
    (1, \<lparr>world = snd (loaded pf w),
         calls = [Dlopen path (RTLD_LAZY pf) NULL],
         stderr = perror_line ''dlopen'' (strerror_errno pf (snd (loaded pf w))),
         stdout = []\<rparr>)"
  using assms by (simp add: run_defs)

lemma main_resolve_failed:
  assumes "load_ok pf w" "\<not> resolve_ok pf w"
  shows "main pf (init w) =
    (1, \<lparr>world = snd (released pf w),
         calls = [Dlopen path (RTLD_LAZY pf) (fst (loaded pf w)),
                  Dlsym (fst (loaded pf w)) ''ModuleEntry'' NULL,
                  Dlclose (fst (loaded pf w)) (fst (released pf w))],
         stderr = perror_line ''dlsym'' (strerror_errno pf (snd (resolved pf w))),
         stdout = []\<rparr>)"
  using assms by (simp add: run_defs)

lemma main_invoke_failed:
  assumes "load_ok pf w" "resolve_ok pf w" "\<not> invoke_ok pf w"
  shows "main pf (init w) =
    (1, \<lparr>world = snd (invoked pf w),
         calls = [Dlopen path (RTLD_LAZY pf) (fst (loaded pf w)),
                  Dlsym (fst (loaded pf w)) ''ModuleEntry'' (fst (resolved pf w)),
                  Entry (fst (resolved pf w)) (fst (loaded pf w)) 0],
         stderr = [],
         stdout = ''failed to init'' @ [newline]\<rparr>)"
  using assms by (simp add: run_defs)

lemma main_unload_failed:
  assumes "load_ok pf w" "resolve_ok pf w" "invoke_ok pf w" "\<not> unload_ok pf w"
  shows "main pf (init w) =
    (1, \<lparr>world = snd (unloaded pf w),
         calls = [Dlopen path (RTLD_LAZY pf) (fst (loaded pf w)),
                  Dlsym (fst (loaded pf w)) ''ModuleEntry'' (fst (resolved pf w)),
                  Entry (fst (resolved pf w)) (fst (loaded pf w)) (fst (invoked pf w)),
                  Dlclose (fst (loaded pf w)) (fst (unloaded pf w))],
         stderr = perror_line ''dlclose'' (strerror_errno pf (snd (unloaded pf w))),
         stdout = []\<rparr>)"
  using assms by (simp add: run_defs)

lemma main_all_ok:
  assumes "load_ok pf w" "resolve_ok pf w" "invoke_ok pf w" "unload_ok pf w"
  shows "main pf (init w) =
    (0, \<lparr>world = snd (unloaded pf w),
         calls = [Dlopen path (RTLD_LAZY pf) (fst (loaded pf w)),
                  Dlsym (fst (loaded pf w)) ''ModuleEntry'' (fst (resolved pf w)),
                  Entry (fst (resolved pf w)) (fst (loaded pf w)) (fst (invoked pf w)),
                  Dlclose (fst (loaded pf w)) 0],
         stderr = [],
         stdout = []\<rparr>)"
  using assms by (simp add: run_defs)

lemma path_cases [case_names load_failed resolve_failed invoke_failed unload_failed all_ok]:
  assumes "\<not> load_ok pf w \<Longrightarrow> P"
    and "load_ok pf w \<Longrightarrow> \<not> resolve_ok pf w \<Longrightarrow> P"
    and "load_ok pf w \<Longrightarrow> resolve_ok pf w \<Longrightarrow> \<not> invoke_ok pf w \<Longrightarrow> P"
    and "load_ok pf w \<Longrightarrow> resolve_ok pf w \<Longrightarrow> invoke_ok pf w \<Longrightarrow> \<not> unload_ok pf w \<Longrightarrow> P"
    and "load_ok pf w \<Longrightarrow> resolve_ok pf w \<Longrightarrow> invoke_ok pf w \<Longrightarrow> unload_ok pf w \<Longrightarrow> P"
  shows P
  using assms by blast

text \<open>The example platform, evaluated.\<close>

lemma stub_answers:
  "fst (loaded (stub lib fn ret rc) w) = lib"
  "fst (resolved (stub lib fn ret rc) w) = fn"
  "fst (invoked (stub lib fn ret rc) w) = ret"
  "fst (unloaded (stub lib fn ret rc) w) = rc"
  "fst (released (stub lib fn ret rc) w) = rc"
  "RTLD_LAZY (stub lib fn ret rc) = 1"
  by (simp_all add: stub_def loaded_def resolved_def invoked_def unloaded_def released_def)

lemma stub_ok:
  "load_ok (stub lib fn ret rc) w = (lib \<noteq> NULL)"
  "resolve_ok (stub lib fn ret rc) w = (fn \<noteq> NULL)"
  "invoke_ok (stub lib fn ret rc) w = (ret \<noteq> 0)"
  "unload_ok (stub lib fn ret rc) w = (rc = 0)"
  by (simp_all add: load_ok_def resolve_ok_def invoke_ok_def unload_ok_def stub_answers)

section \<open>The claims\<close>

text \<open>
  C1. When the load, the resolve, the call (returning non-zero) and the unload all
  succeed, the program exits with status 0 and has made exactly one \<^verbatim>\<open>dlopen\<close>, one
  \<^verbatim>\<open>dlsym\<close>, one call of the entry function and one \<^verbatim>\<open>dlclose\<close>, in that order.
\<close>

theorem success_path:
  assumes "load_ok pf w" and "resolve_ok pf w" and "invoke_ok pf w" and "unload_ok pf w"
  shows "exit_status pf w = 0 \<and>
    calls (final pf w) =
      [Dlopen path (RTLD_LAZY pf) (fst (loaded pf w)),
       Dlsym (fst (loaded pf w)) ''ModuleEntry'' (fst (resolved pf w)),
       Entry (fst (resolved pf w)) (fst (loaded pf w)) (fst (invoked pf w)),
       Dlclose (fst (loaded pf w)) 0] \<and>
    map kind_of (calls (final pf w)) = [Load, Resolve, Invoke, Unload]"
  by (simp add: exit_status_def final_def main_all_ok [OF assms])

theorem success_path_witness:
  "load_ok (stub 0x7f00 0x7f10 1 0) ''Success'' \<and>
   resolve_ok (stub 0x7f00 0x7f10 1 0) ''Success'' \<and>
   invoke_ok (stub 0x7f00 0x7f10 1 0) ''Success'' \<and>
   unload_ok (stub 0x7f00 0x7f10 1 0) ''Success'' \<and>
   exit_status (stub 0x7f00 0x7f10 1 0) ''Success'' = 0 \<and>
   calls (final (stub 0x7f00 0x7f10 1 0) ''Success'') =
     [Dlopen path 1 0x7f00, Dlsym 0x7f00 ''ModuleEntry'' 0x7f10,
      Entry 0x7f10 0x7f00 1, Dlclose 0x7f00 0]"
  using success_path [of "stub 0x7f00 0x7f10 1 0" "''Success''"]
  by (simp add: stub_ok stub_answers)

text \<open>
  C2. When the load and the resolve succeed and the entry function returns zero, the
  program writes its message and exits with a non-zero status, and never calls
  \<^verbatim>\<open>dlclose\<close>: the handle is not released.
\<close>

theorem invoke_failure_path:
  assumes "load_ok pf w" and "resolve_ok pf w" and "\<not> invoke_ok pf w"
  shows "exit_status pf w = 1 \<and> exit_status pf w \<noteq> 0 \<and>
    stdout (final pf w) = ''failed to init'' @ [newline] \<and>
    calls (final pf w) =
      [Dlopen path (RTLD_LAZY pf) (fst (loaded pf w)),
       Dlsym (fst (loaded pf w)) ''ModuleEntry'' (fst (resolved pf w)),
       Entry (fst (resolved pf w)) (fst (loaded pf w)) 0] \<and>
    Unload \<notin> set (map kind_of (calls (final pf w)))"
  by (simp add: exit_status_def final_def main_invoke_failed [OF assms])

theorem invoke_failure_path_witness:
  "load_ok (stub 0x7f00 0x7f10 0 0) ''Success'' \<and>
   resolve_ok (stub 0x7f00 0x7f10 0 0) ''Success'' \<and>
   \<not> invoke_ok (stub 0x7f00 0x7f10 0 0) ''Success'' \<and>
   exit_status (stub 0x7f00 0x7f10 0 0) ''Success'' = 1 \<and>
   stdout (final (stub 0x7f00 0x7f10 0 0) ''Success'') = ''failed to init'' @ [newline] \<and>
   calls (final (stub 0x7f00 0x7f10 0 0) ''Success'') =
     [Dlopen path 1 0x7f00, Dlsym 0x7f00 ''ModuleEntry'' 0x7f10, Entry 0x7f10 0x7f00 0]"
  using invoke_failure_path [of "stub 0x7f00 0x7f10 0 0" "''Success''"]
  by (simp add: stub_ok stub_answers)

text \<open>
  C3. The exit status is 0 exactly when all four steps succeed and 1 otherwise, whichever
  step failed.
\<close>

theorem exit_status_flat:
  "exit_status pf w =
     (if load_ok pf w \<and> resolve_ok pf w \<and> invoke_ok pf w \<and> unload_ok pf w then 0 else 1)"
  by (cases pf w rule: path_cases)
    (simp_all add: exit_status_def main_load_failed main_resolve_failed main_invoke_failed
      main_unload_failed main_all_ok)

theorem exit_status_flat_witness:
  "exit_status (stub 0x7f00 0x7f10 1 0) ''Success'' = 0 \<and>
   exit_status (stub 0 0x7f10 1 0) ''Success'' = 1 \<and>
   exit_status (stub 0x7f00 0 1 0) ''Success'' = 1 \<and>
   exit_status (stub 0x7f00 0x7f10 0 0) ''Success'' = 1 \<and>
   exit_status (stub 0x7f00 0x7f10 1 (- 1)) ''Success'' = 1"
  using exit_status_flat [of "stub 0x7f00 0x7f10 1 0" "''Success''"]
    exit_status_flat [of "stub 0 0x7f10 1 0" "''Success''"]
    exit_status_flat [of "stub 0x7f00 0 1 0" "''Success''"]
    exit_status_flat [of "stub 0x7f00 0x7f10 0 0" "''Success''"]
    exit_status_flat [of "stub 0x7f00 0x7f10 1 (- 1)" "''Success''"]
  by (simp add: stub_ok)

text \<open>
  C4. When the load fails, the program exits with a non-zero status after that one
  \<^verbatim>\<open>dlopen\<close>, with no \<^verbatim>\<open>dlsym\<close>, no call of the entry function and no \<^verbatim>\<open>dlclose\<close>.
\<close>

theorem load_failure_path:
  assumes "\<not> load_ok pf w"
  shows "exit_status pf w = 1 \<and> exit_status pf w \<noteq> 0 \<and>
    calls (final pf w) = [Dlopen path (RTLD_LAZY pf) NULL] \<and>
    map kind_of (calls (final pf w)) = [Load]"
  by (simp add: exit_status_def final_def main_load_failed [OF assms])

theorem load_failure_path_witness:
  "\<not> load_ok (stub 0 0x7f10 1 0) ''Success'' \<and>
   exit_status (stub 0 0x7f10 1 0) ''Success'' = 1 \<and>
   calls (final (stub 0 0x7f10 1 0) ''Success'') = [Dlopen path 1 NULL]"
  using load_failure_path [of "stub 0 0x7f10 1 0" "''Success''"]
  by (simp add: stub_ok stub_answers)

text \<open>
  C5. When the load succeeds and \<^verbatim>\<open>"ModuleEntry"\<close> does not resolve, the program writes
  a diagnostic, releases the handle with \<^verbatim>\<open>dlclose\<close>, exits with a non-zero status and
  never calls the entry function.
\<close>

theorem resolve_failure_path:
  assumes "load_ok pf w" and "\<not> resolve_ok pf w"
  shows "exit_status pf w = 1 \<and> exit_status pf w \<noteq> 0 \<and>
    stderr (final pf w) = ''dlsym: '' @ strerror_errno pf (snd (resolved pf w)) @ [newline] \<and>
    calls (final pf w) =
      [Dlopen path (RTLD_LAZY pf) (fst (loaded pf w)),
       Dlsym (fst (loaded pf w)) ''ModuleEntry'' NULL,
       Dlclose (fst (loaded pf w)) (fst (released pf w))] \<and>
    Invoke \<notin> set (map kind_of (calls (final pf w)))"
  by (simp add: exit_status_def final_def main_resolve_failed [OF assms] perror_line_def)

theorem resolve_failure_path_witness:
  "load_ok (stub 0x7f00 0 1 0) ''Success'' \<and>
   \<not> resolve_ok (stub 0x7f00 0 1 0) ''Success'' \<and>
   exit_status (stub 0x7f00 0 1 0) ''Success'' = 1 \<and>
   stderr (final (stub 0x7f00 0 1 0) ''Success'') = ''dlsym: Success'' @ [newline] \<and>
   calls (final (stub 0x7f00 0 1 0) ''Success'') =
     [Dlopen path 1 0x7f00, Dlsym 0x7f00 ''ModuleEntry'' NULL, Dlclose 0x7f00 0]"
  using resolve_failure_path [of "stub 0x7f00 0 1 0" "''Success''"]
  by (simp add: stub_ok stub_answers) (simp add: stub_def resolved_def loaded_def)

text \<open>
  C6. When the load, the resolve and the call succeed and \<^verbatim>\<open>dlclose\<close> reports failure,
  the program writes a diagnostic and exits with a non-zero status, each of the four
  steps having been attempted exactly once.
\<close>

theorem unload_failure_path:
  assumes "load_ok pf w" and "resolve_ok pf w" and "invoke_ok pf w" and "\<not> unload_ok pf w"
  shows "exit_status pf w = 1 \<and> exit_status pf w \<noteq> 0 \<and>
    stderr (final pf w) = ''dlclose: '' @ strerror_errno pf (snd (unloaded pf w)) @ [newline] \<and>
    calls (final pf w) =
      [Dlopen path (RTLD_LAZY pf) (fst (loaded pf w)),
       Dlsym (fst (loaded pf w)) ''ModuleEntry'' (fst (resolved pf w)),
       Entry (fst (resolved pf w)) (fst (loaded pf w)) (fst (invoked pf w)),
       Dlclose (fst (loaded pf w)) (fst (unloaded pf w))] \<and>
    map kind_of (calls (final pf w)) = [Load, Resolve, Invoke, Unload]"
  by (simp add: exit_status_def final_def main_unload_failed [OF assms] perror_line_def)

theorem unload_failure_path_witness:
  "load_ok (stub 0x7f00 0x7f10 1 (- 1)) ''Success'' \<and>
   resolve_ok (stub 0x7f00 0x7f10 1 (- 1)) ''Success'' \<and>
   invoke_ok (stub 0x7f00 0x7f10 1 (- 1)) ''Success'' \<and>
   \<not> unload_ok (stub 0x7f00 0x7f10 1 (- 1)) ''Success'' \<and>
   exit_status (stub 0x7f00 0x7f10 1 (- 1)) ''Success'' = 1 \<and>
   stderr (final (stub 0x7f00 0x7f10 1 (- 1)) ''Success'') =
     ''dlclose: Invalid argument'' @ [newline] \<and>
   calls (final (stub 0x7f00 0x7f10 1 (- 1)) ''Success'') =
     [Dlopen path 1 0x7f00, Dlsym 0x7f00 ''ModuleEntry'' 0x7f10,
      Entry 0x7f10 0x7f00 1, Dlclose 0x7f00 (- 1)]"
  using unload_failure_path [of "stub 0x7f00 0x7f10 1 (- 1)" "''Success''"]
  by (simp add: stub_ok stub_answers)
    (simp add: stub_def unloaded_def invoked_def resolved_def loaded_def)

text \<open>
  C7. Every run follows the specification's state machine
  \<^verbatim>\<open>Start, Loaded, Resolved, Invoked, Unloaded, Success\<close>, leaving it for the failed state
  of the first step that fails, and its exit status is that of the state reached. None
  of the four steps is attempted twice, and a call that reported failure is the last
  one, except that a failed resolve is followed by the release of the handle.
\<close>

theorem follows_state_machine:
  "spec_run Start (calls (final pf w)) =
     Some (if \<not> load_ok pf w then Failed Load
           else if \<not> resolve_ok pf w then Failed Resolve
           else if \<not> invoke_ok pf w then Failed Invoke
           else if \<not> unload_ok pf w then Failed Unload
           else Success) \<and>
   Option.bind (spec_run Start (calls (final pf w))) spec_status = Some (exit_status pf w) \<and>
   distinct (map kind_of (calls (final pf w))) \<and>
   (\<forall>xs c ys. calls (final pf w) = xs @ c # ys \<and> failed c \<longrightarrow>
      ys = [] \<or> (kind_of c = Resolve \<and> (\<exists>rc. ys = [Dlclose (fst (loaded pf w)) rc])))"
proof (cases pf w rule: path_cases)
  case load_failed
  then show ?thesis
    by (simp add: exit_status_def final_def main_load_failed Cons_eq_append_conv)
next
  case resolve_failed
  then show ?thesis
    by (auto simp: exit_status_def final_def main_resolve_failed Cons_eq_append_conv
        load_ok_def resolve_ok_def)
next
  case invoke_failed
  then show ?thesis
    by (auto simp: exit_status_def final_def main_invoke_failed Cons_eq_append_conv
        load_ok_def resolve_ok_def)
next
  case unload_failed
  then show ?thesis
    by (auto simp: exit_status_def final_def main_unload_failed Cons_eq_append_conv
        load_ok_def resolve_ok_def invoke_ok_def unload_ok_def)
next
  case all_ok
  then show ?thesis
    by (auto simp: exit_status_def final_def main_all_ok Cons_eq_append_conv
        load_ok_def resolve_ok_def invoke_ok_def unload_ok_def)
qed

theorem follows_state_machine_witness:
  "spec_run Start (calls (final (stub 0x7f00 0 1 0) ''Success'')) = Some (Failed Resolve) \<and>
   Option.bind (spec_run Start (calls (final (stub 0x7f00 0 1 0) ''Success''))) spec_status =
     Some (exit_status (stub 0x7f00 0 1 0) ''Success'') \<and>
   distinct (map kind_of (calls (final (stub 0x7f00 0 1 0) ''Success''))) \<and>
   calls (final (stub 0x7f00 0 1 0) ''Success'') =
     [Dlopen path 1 0x7f00] @ Dlsym 0x7f00 ''ModuleEntry'' NULL # [Dlclose 0x7f00 0] \<and>
   failed (Dlsym 0x7f00 ''ModuleEntry'' NULL) \<and>
   kind_of (Dlsym 0x7f00 ''ModuleEntry'' NULL) = Resolve"
  using follows_state_machine [of "stub 0x7f00 0 1 0" "''Success''"]
  by (simp add: final_def run_defs stub_def)

text \<open>
  C8. When the load, the resolve or the unload fails, the program writes one line to
  standard error, made by \<^verbatim>\<open>perror\<close> from the name of the failed call and the platform's
  message for \<^verbatim>\<open>errno\<close>; when the entry function returns zero it writes the line
  \<^verbatim>\<open>failed to init\<close> to standard output, and that is all it writes; when all four steps
  succeed it writes nothing.
\<close>

theorem diagnostics:
  "(\<not> load_ok pf w \<longrightarrow>
      stderr (final pf w) = ''dlopen: '' @ strerror_errno pf (snd (loaded pf w)) @ [newline] \<and>
      stdout (final pf w) = [] \<and>
      (newline \<notin> set (strerror_errno pf (snd (loaded pf w))) \<longrightarrow> is_line (stderr (final pf w)))) \<and>
   (load_ok pf w \<and> \<not> resolve_ok pf w \<longrightarrow>
      stderr (final pf w) = ''dlsym: '' @ strerror_errno pf (snd (resolved pf w)) @ [newline] \<and>
      stdout (final pf w) = [] \<and>
      (newline \<notin> set (strerror_errno pf (snd (resolved pf w))) \<longrightarrow> is_line (stderr (final pf w)))) \<and>
   (load_ok pf w \<and> resolve_ok pf w \<and> \<not> invoke_ok pf w \<longrightarrow>
      stdout (final pf w) = ''failed to init'' @ [newline] \<and>
      stderr (final pf w) = [] \<and>
      is_line (stdout (final pf w))) \<and>
   (load_ok pf w \<and> resolve_ok pf w \<and> invoke_ok pf w \<and> \<not> unload_ok pf w \<longrightarrow>
      stderr (final pf w) = ''dlclose: '' @ strerror_errno pf (snd (unloaded pf w)) @ [newline] \<and>
      stdout (final pf w) = [] \<and>
      (newline \<notin> set (strerror_errno pf (snd (unloaded pf w))) \<longrightarrow> is_line (stderr (final pf w)))) \<and>
   (load_ok pf w \<and> resolve_ok pf w \<and> invoke_ok pf w \<and> unload_ok pf w \<longrightarrow>
      stderr (final pf w) = [] \<and> stdout (final pf w) = [])"
proof (cases pf w rule: path_cases)
  case load_failed
  then show ?thesis
    by (simp add: final_def main_load_failed perror_line_def is_line_def newline_def butlast_append)
next
  case resolve_failed
  then show ?thesis
    by (simp add: final_def main_resolve_failed perror_line_def is_line_def newline_def butlast_append)
next
  case invoke_failed
  then show ?thesis
    by (simp add: final_def main_invoke_failed is_line_def newline_def)
next
  case unload_failed
  then show ?thesis
    by (simp add: final_def main_unload_failed perror_line_def is_line_def newline_def butlast_append)
next
  case all_ok
  then show ?thesis
    by (simp add: final_def main_all_ok)
qed

theorem diagnostics_witness:
  "\<not> load_ok (stub 0 0x7f10 1 0) ''Success'' \<and>
   stderr (final (stub 0 0x7f10 1 0) ''Success'') =
     ''dlopen: No such file or directory'' @ [newline] \<and>
   stdout (final (stub 0 0x7f10 1 0) ''Success'') = [] \<and>
   newline \<notin> set ''No such file or directory'' \<and>
   is_line (stderr (final (stub 0 0x7f10 1 0) ''Success'')) \<and>
   load_ok (stub 0x7f00 0x7f10 0 0) ''Success'' \<and>
   resolve_ok (stub 0x7f00 0x7f10 0 0) ''Success'' \<and>
   \<not> invoke_ok (stub 0x7f00 0x7f10 0 0) ''Success'' \<and>
   stdout (final (stub 0x7f00 0x7f10 0 0) ''Success'') = ''failed to init'' @ [newline] \<and>
   stderr (final (stub 0x7f00 0x7f10 0 0) ''Success'') = []"
  using diagnostics [of "stub 0 0x7f10 1 0" "''Success''"]
    diagnostics [of "stub 0x7f00 0x7f10 0 0" "''Success''"]
  by (simp add: stub_ok) (simp add: stub_def loaded_def newline_def is_line_def)

text \<open>
  C9. \<^verbatim>\<open>main\<close> reads no arguments, no environment and no input: its run is a function of
  the platform alone. Two runs on platforms that answer alike, whatever else their
  worlds hold, have the same exit status and make the same calls.
\<close>

theorem same_answers_same_run:
  assumes "R w1 w2" and "same_answers R p q"
  shows "exit_status p w1 = exit_status q w2 \<and> calls (final p w1) = calls (final q w2)"
proof -
  have flag: "RTLD_LAZY p = RTLD_LAZY q"
    using assms(2) by (simp add: same_answers_def)
  have l: "fst (loaded p w1) = fst (loaded q w2) \<and> R (snd (loaded p w1)) (snd (loaded q w2))"
    using assms by (simp add: same_answers_def loaded_def)
  then have r: "fst (resolved p w1) = fst (resolved q w2) \<and>
      R (snd (resolved p w1)) (snd (resolved q w2))"
    using assms(2) by (simp add: same_answers_def resolved_def)
  with l have i: "fst (invoked p w1) = fst (invoked q w2) \<and>
      R (snd (invoked p w1)) (snd (invoked q w2))"
    using assms(2) by (simp add: same_answers_def invoked_def)
  with l have u: "fst (unloaded p w1) = fst (unloaded q w2)"
    using assms(2) by (simp add: same_answers_def unloaded_def)
  from l r have c: "fst (released p w1) = fst (released q w2)"
    using assms(2) by (simp add: same_answers_def released_def)
  have ok: "load_ok p w1 = load_ok q w2" "resolve_ok p w1 = resolve_ok q w2"
    "invoke_ok p w1 = invoke_ok q w2" "unload_ok p w1 = unload_ok q w2"
    using l r i u by (simp_all add: load_ok_def resolve_ok_def invoke_ok_def unload_ok_def)
  show ?thesis
  proof (cases p w1 rule: path_cases)
    case load_failed
    then show ?thesis
      using ok flag by (simp add: exit_status_def final_def main_load_failed)
  next
    case resolve_failed
    then show ?thesis
      using ok flag l c by (simp add: exit_status_def final_def main_resolve_failed)
  next
    case invoke_failed
    then show ?thesis
      using ok flag l r by (simp add: exit_status_def final_def main_invoke_failed)
  next
    case unload_failed
    then show ?thesis
      using ok flag l r i u by (simp add: exit_status_def final_def main_unload_failed)
  next
    case all_ok
    then show ?thesis
      using ok flag l r i by (simp add: exit_status_def final_def main_all_ok)
  qed
qed

theorem same_answers_same_run_witness:
  "same_answers (\<lambda>a b. True) (stub 0x7f00 0x7f10 1 0) (stub 0x7f00 0x7f10 1 0) \<and>
   exit_status (stub 0x7f00 0x7f10 1 0) ''Success'' =
     exit_status (stub 0x7f00 0x7f10 1 0) ''Bad address'' \<and>
   calls (final (stub 0x7f00 0x7f10 1 0) ''Success'') =
     calls (final (stub 0x7f00 0x7f10 1 0) ''Bad address'')"
  using same_answers_same_run [of "\<lambda>a b. True" "''Success''" "''Bad address''"
      "stub 0x7f00 0x7f10 1 0" "stub 0x7f00 0x7f10 1 0"]
  by (simp add: same_answers_def stub_def)

text \<open>
  C10. The entry function is never called through a null pointer: every call of it in
  a run goes through the pointer \<^verbatim>\<open>dlsym\<close> returned, which is not null. Whenever
  \<^verbatim>\<open>dlsym\<close> returns null, for whatever reason, the run is the resolve-failure one: the
  handle is released, the exit status is 1, and there is no call.
\<close>

theorem entry_pointer_not_null:
  "(\<forall>f arg r. Entry f arg r \<in> set (calls (final pf w)) \<longrightarrow>
      f \<noteq> NULL \<and> f = fst (resolved pf w)) \<and>
   (load_ok pf w \<and> fst (resolved pf w) = NULL \<longrightarrow>
      exit_status pf w = 1 \<and>
      calls (final pf w) =
        [Dlopen path (RTLD_LAZY pf) (fst (loaded pf w)),
         Dlsym (fst (loaded pf w)) ''ModuleEntry'' NULL,
         Dlclose (fst (loaded pf w)) (fst (released pf w))])"
proof (cases pf w rule: path_cases)
  case load_failed
  then show ?thesis
    by (simp add: final_def main_load_failed)
next
  case resolve_failed
  then show ?thesis
    by (simp add: exit_status_def final_def main_resolve_failed)
next
  case invoke_failed
  then show ?thesis
    by (simp add: final_def main_invoke_failed) (simp add: resolve_ok_def)
next
  case unload_failed
  then show ?thesis
    by (simp add: final_def main_unload_failed) (simp add: resolve_ok_def)
next
  case all_ok
  then show ?thesis
    by (simp add: final_def main_all_ok) (simp add: resolve_ok_def)
qed

theorem entry_pointer_not_null_witness:
  "Entry 0x7f10 0x7f00 1 \<in> set (calls (final (stub 0x7f00 0x7f10 1 0) ''Success'')) \<and>
   (0x7f10 :: ptr) \<noteq> NULL \<and>
   load_ok (stub 0x7f00 0 1 0) ''Success'' \<and>
   fst (resolved (stub 0x7f00 0 1 0) ''Success'') = NULL \<and>
   exit_status (stub 0x7f00 0 1 0) ''Success'' = 1 \<and>
   calls (final (stub 0x7f00 0 1 0) ''Success'') =
     [Dlopen path 1 0x7f00, Dlsym 0x7f00 ''ModuleEntry'' NULL, Dlclose 0x7f00 0]"
  using entry_pointer_not_null [of "stub 0x7f00 0x7f10 1 0" "''Success''"]
    entry_pointer_not_null [of "stub 0x7f00 0 1 0" "''Success''"]
  by (simp add: stub_ok stub_answers) (simp add: final_def run_defs stub_def)

end
